theory Spec2Isabelle
  imports Main
begin

section \<open>The cache store: class DataCache of useOptimizedData.ts\<close>

text \<open>
  Times are the integer milliseconds that \<^verbatim>\<open>Date.now()\<close> returns; a ttl is a number of
  milliseconds and may be any integer, negative ones included, since the source takes a
  plain \<^verbatim>\<open>number\<close> and checks nothing.
\<close>

record 'a CacheEntry =
  data :: 'a
  timestamp :: int
  expiresAt :: int

text \<open>
  The private field \<^verbatim>\<open>cache\<close> is a JavaScript \<^verbatim>\<open>Map\<close>: its entries are kept in insertion
  order, which is the order the \<^verbatim>\<open>for ... of\<close> loops of \<^verbatim>\<open>invalidate\<close> and \<^verbatim>\<open>cleanup\<close>
  walk through. It is modelled as the list of its (key, entry) pairs in that order.
\<close>

type_synonym 'a DataCache = "(string \<times> 'a CacheEntry) list"

definition DEFAULT_TTL :: int where
  "DEFAULT_TTL = 5 * 60 * 1000"

text \<open>\<^verbatim>\<open>Map.prototype.get\<close>: the entry under the key, if there is one.\<close>

fun Map_get :: "(string \<times> 'v) list \<Rightarrow> string \<Rightarrow> 'v option" where
  "Map_get [] k = None"
| "Map_get ((k', v) # rest) k = (if k' = k then Some v else Map_get rest k)"

text \<open>
  \<^verbatim>\<open>Map.prototype.set\<close>: a key already present keeps its place and gets the new value,
  a new key goes to the end.
\<close>

fun Map_set :: "(string \<times> 'v) list \<Rightarrow> string \<Rightarrow> 'v \<Rightarrow> (string \<times> 'v) list" where
  "Map_set [] k v = [(k, v)]"
| "Map_set ((k', v') # rest) k v =
     (if k' = k then (k, v) # rest else (k', v') # Map_set rest k v)"

text \<open>\<^verbatim>\<open>Map.prototype.delete\<close>.\<close>

fun Map_delete :: "(string \<times> 'v) list \<Rightarrow> string \<Rightarrow> (string \<times> 'v) list" where
  "Map_delete [] k = []"
| "Map_delete ((k', v) # rest) k =
     (if k' = k then Map_delete rest k else (k', v) # Map_delete rest k)"

text \<open>The key set of the store, as a key enumeration would list it.\<close>

definition Map_keys :: "(string \<times> 'v) list \<Rightarrow> string list" where
  "Map_keys m = map fst m"

text \<open>
  \<^verbatim>\<open>set(key, data, ttl = DEFAULT_TTL)\<close>. The optional argument is an \<open>option\<close>. The object
  literal reads \<^verbatim>\<open>Date.now()\<close> twice, once for \<^verbatim>\<open>timestamp\<close> and once for \<^verbatim>\<open>expiresAt\<close>;
  \<open>now1\<close> and \<open>now2\<close> are these two readings.
\<close>

definition DataCache_set ::
  "'a DataCache \<Rightarrow> string \<Rightarrow> 'a \<Rightarrow> int option \<Rightarrow> int \<Rightarrow> int \<Rightarrow> 'a DataCache" where
  "DataCache_set cache key d ttl now1 now2 =
     (let ttl' = (case ttl of None \<Rightarrow> DEFAULT_TTL | Some n \<Rightarrow> n)
      in Map_set cache key \<lparr>data = d, timestamp = now1, expiresAt = now2 + ttl'\<rparr>)"

text \<open>
  \<^verbatim>\<open>get(key)\<close> returns the data or \<^verbatim>\<open>null\<close> (here \<open>None\<close>) and may delete the entry, so the
  model returns the result together with the store after the call. \<open>now\<close> is the reading
  of \<^verbatim>\<open>Date.now()\<close> in the expiry test.
\<close>

definition DataCache_get :: "'a DataCache \<Rightarrow> string \<Rightarrow> int \<Rightarrow> 'a option \<times> 'a DataCache" where
  "DataCache_get cache key now =
     (case Map_get cache key of
        None \<Rightarrow> (None, cache)
      | Some entry \<Rightarrow>
          if now > expiresAt entry then (None, Map_delete cache key)
          else (Some (data entry), cache))"

text \<open>\<^verbatim>\<open>String.prototype.includes\<close>: the pattern occurs in the key as a contiguous piece.\<close>

fun startsWith :: "string \<Rightarrow> string \<Rightarrow> bool" where
  "startsWith s [] = True"
| "startsWith [] (p # ps) = False"
| "startsWith (c # cs) (p # ps) = (c = p \<and> startsWith cs ps)"

fun includes_str :: "string \<Rightarrow> string \<Rightarrow> bool" where
  "includes_str [] pat = startsWith [] pat"
| "includes_str (c # cs) pat = (startsWith (c # cs) pat \<or> includes_str cs pat)"

text \<open>
  The loop of \<^verbatim>\<open>invalidate(pattern)\<close>: it walks the entries and deletes from the map as it
  goes. The first argument is what is left to visit, the second the map itself.
\<close>

fun invalidate_loop :: "string \<Rightarrow> (string \<times> 'v) list \<Rightarrow> (string \<times> 'v) list \<Rightarrow> (string \<times> 'v) list" where
  "invalidate_loop pat [] cache = cache"
| "invalidate_loop pat ((key, v) # rest) cache =
     invalidate_loop pat rest (if includes_str key pat then Map_delete cache key else cache)"

text \<open>
  \<^verbatim>\<open>invalidate(pattern?)\<close>: \<^verbatim>\<open>!pattern\<close> holds for a missing argument and for the empty
  string, and then the whole map is cleared.
\<close>

definition DataCache_invalidate :: "'a DataCache \<Rightarrow> string option \<Rightarrow> 'a DataCache" where
  "DataCache_invalidate cache pattern =
     (case pattern of
        None \<Rightarrow> []
      | Some pat \<Rightarrow> if pat = [] then [] else invalidate_loop pat cache cache)"

text \<open>The loop of \<^verbatim>\<open>cleanup()\<close>, in the same style, and \<^verbatim>\<open>cleanup\<close> itself.\<close>

fun cleanup_loop :: "int \<Rightarrow> 'a DataCache \<Rightarrow> 'a DataCache \<Rightarrow> 'a DataCache" where
  "cleanup_loop now [] cache = cache"
| "cleanup_loop now ((key, entry) # rest) cache =
     cleanup_loop now rest (if now > expiresAt entry then Map_delete cache key else cache)"

definition DataCache_cleanup :: "'a DataCache \<Rightarrow> int \<Rightarrow> 'a DataCache" where
  "DataCache_cleanup cache now = cleanup_loop now cache cache"


section \<open>The hook useOptimizedData\<close>

text \<open>
  The fetched values are JavaScript values; the hook tests a cached value for truthiness
  (\<^verbatim>\<open>if (cached)\<close>), so the model says which values are falsy. Numbers are integers
  here; \<open>JObj\<close> stands for an object or array, named by a number.
\<close>

datatype jsval = JNull | JUndefined | JBool bool | JNum int | JStr string | JObj nat

fun truthy :: "jsval \<Rightarrow> bool" where
  "truthy JNull = False"
| "truthy JUndefined = False"
| "truthy (JBool b) = b"
| "truthy (JNum n) = (n \<noteq> 0)"
| "truthy (JStr s) = (s \<noteq> [])"
| "truthy (JObj r) = True"

text \<open>
  What a rejected \<^verbatim>\<open>fetchFn()\<close> throws: an \<^verbatim>\<open>Error\<close> with its message, or any other
  value.
\<close>

datatype thrown = ErrorObject string | OtherValue

text \<open>The options after the destructuring with defaults (lines 73 to 78), and the key.\<close>

record options =
  key :: string
  ttl :: int
  refreshOnFocus :: bool
  retryOnError :: bool
  maxRetries :: int

definition default_options :: "string \<Rightarrow> options" where
  "default_options k =
     \<lparr>key = k, ttl = 5 * 60 * 1000, refreshOnFocus = True, retryOnError = True, maxRetries = 3\<rparr>"

text \<open>
  \<^verbatim>\<open>fetchData\<close> is built by \<^verbatim>\<open>useCallback\<close> with the dependencies
  \<^verbatim>\<open>[key, fetchFn, ttl, isLoading, retryOnError, retryCount, maxRetries]\<close>: inside one such
  function \<^verbatim>\<open>isLoading\<close> and \<^verbatim>\<open>retryCount\<close> are the constants of the render that built
  it, whatever \<^verbatim>\<open>setIsLoading\<close> and \<^verbatim>\<open>setRetryCount\<close> have done since. A \<open>closure\<close>
  holds these two captured values; \<^verbatim>\<open>key\<close>, \<^verbatim>\<open>ttl\<close>, \<^verbatim>\<open>retryOnError\<close> and \<^verbatim>\<open>maxRetries\<close>
  come from the options.
\<close>

record closure =
  cl_isLoading :: bool
  cl_retryCount :: nat

text \<open>
  The state the hook works on: the four \<^verbatim>\<open>useState\<close> cells (the data cell is
  \<open>hook_data\<close>), the two refs, the module's \<^verbatim>\<open>globalCache\<close>, and what the hook does to
  its environment: the \<^verbatim>\<open>aborted\<close> flag of every \<^verbatim>\<open>AbortController\<close> made so far (a
  controller is named by its index), the times at which \<^verbatim>\<open>fetchFn\<close> was invoked, oldest
  first, and the \<^verbatim>\<open>setTimeout\<close> callbacks not yet run, each with its delay in milliseconds
  and the closure whose \<^verbatim>\<open>fetchData(true)\<close> it will call.
\<close>

record world =
  hook_data :: jsval
  isLoading :: bool
  error :: "string option"
  retryCount :: nat
  lastFetchRef :: int
  abortControllerRef :: "nat option"
  globalCache :: "jsval DataCache"
  controllers :: "bool list"
  fetchFn_calls :: "int list"
  timers :: "(int \<times> closure) list"

definition init_world :: world where
  "init_world =
     \<lparr>hook_data = JNull, isLoading = False, error = None, retryCount = 0,
      lastFetchRef = 0, abortControllerRef = None, globalCache = [],
      controllers = [], fetchFn_calls = [], timers = []\<rparr>"

text \<open>The closure that a render in the state \<open>w\<close> builds.\<close>

definition render :: "world \<Rightarrow> closure" where
  "render w = \<lparr>cl_isLoading = isLoading w, cl_retryCount = retryCount w\<rparr>"

text \<open>
  A call of \<^verbatim>\<open>fetchData\<close> that reaches \<^verbatim>\<open>await fetchFn()\<close> is suspended there. What
  the rest of the call needs is kept in a \<open>pending\<close>: the closure, the \<^verbatim>\<open>now\<close> read on
  entry, and the controller the call made.
\<close>

record pending =
  p_closure :: closure
  p_now :: int
  p_controller :: nat

datatype outcome = Resolved_cached jsval | Resolved_undefined | Awaiting pending

text \<open>\<^verbatim>\<open>controller.abort()\<close> sets the flag of that controller and does nothing else.\<close>

definition abort :: "nat \<Rightarrow> bool list \<Rightarrow> bool list" where
  "abort i cs = cs[i := True]"

text \<open>
  Lines 107 to 118: the state is set to loading, the controller in the ref is aborted and
  replaced by a new one, and \<^verbatim>\<open>fetchFn()\<close> is invoked. It is invoked with no argument: the
  new controller's signal is not passed to it.
\<close>

definition startFetch :: "closure \<Rightarrow> int \<Rightarrow> world \<Rightarrow> outcome \<times> world" where
  "startFetch cl now w =
     (let w1 = w\<lparr>isLoading := True, error := None\<rparr>;
          w2 = (case abortControllerRef w1 of
                  None \<Rightarrow> w1
                | Some i \<Rightarrow> w1\<lparr>controllers := abort i (controllers w1)\<rparr>);
          c = length (controllers w2);
          w3 = w2\<lparr>controllers := controllers w2 @ [False], abortControllerRef := Some c\<rparr>
      in (Awaiting \<lparr>p_closure = cl, p_now = now, p_controller = c\<rparr>,
          w3\<lparr>fetchFn_calls := fetchFn_calls w3 @ [now]\<rparr>))"

text \<open>
  Lines 101 to 105: the two guards, on the captured \<^verbatim>\<open>isLoading\<close> and on the ref
  \<^verbatim>\<open>lastFetchRef\<close>; a guarded call returns \<^verbatim>\<open>undefined\<close>.
\<close>

definition guards :: "closure \<Rightarrow> bool \<Rightarrow> int \<Rightarrow> world \<Rightarrow> outcome \<times> world" where
  "guards cl force now w =
     (if cl_isLoading cl \<and> \<not> force then (Resolved_undefined, w)
      else if \<not> force \<and> now - lastFetchRef w < 1000 then (Resolved_undefined, w)
      else startFetch cl now w)"

text \<open>
  \<^verbatim>\<open>fetchData(force)\<close> up to its \<^verbatim>\<open>await\<close>, called through the closure \<open>cl\<close> at the time
  \<open>now\<close>. The part is synchronous, and the reading of \<^verbatim>\<open>Date.now()\<close> inside
  \<^verbatim>\<open>globalCache.get\<close> is taken to be the \<^verbatim>\<open>now\<close> read on entry.
\<close>

definition fetchData :: "options \<Rightarrow> closure \<Rightarrow> bool \<Rightarrow> int \<Rightarrow> world \<Rightarrow> outcome \<times> world" where
  "fetchData opts cl force now w =
     (if \<not> force then
        (case DataCache_get (globalCache w) (key opts) now of
           (cached, cache') \<Rightarrow>
             (let w1 = w\<lparr>globalCache := cache'\<rparr>
              in case cached of
                   None \<Rightarrow> guards cl force now w1
                 | Some v \<Rightarrow>
                     if truthy v then (Resolved_cached v, w1\<lparr>hook_data := v\<rparr>)
                     else guards cl force now w1))
      else guards cl force now w)"

text \<open>
  The rest of a suspended call when \<^verbatim>\<open>fetchFn()\<close> resolves with \<open>result\<close> at the time
  \<open>t\<close>: lines 120 to 125 and the \<^verbatim>\<open>finally\<close> block. Nothing here looks at the call's
  controller. The call returns \<open>result\<close>.
\<close>

definition fetchData_resolved :: "options \<Rightarrow> pending \<Rightarrow> jsval \<Rightarrow> int \<Rightarrow> world \<Rightarrow> world" where
  "fetchData_resolved opts p result t w =
     (let w1 = w\<lparr>hook_data := result\<rparr>;
          w2 = w1\<lparr>globalCache :=
                  DataCache_set (globalCache w1) (key opts) result (Some (ttl opts)) t t\<rparr>;
          w3 = w2\<lparr>lastFetchRef := p_now p\<rparr>;
          w4 = w3\<lparr>retryCount := 0\<rparr>
      in w4\<lparr>isLoading := False, abortControllerRef := None\<rparr>)"

text \<open>
  The rest of a suspended call when \<^verbatim>\<open>fetchFn()\<close> rejects with \<open>err\<close>: the \<^verbatim>\<open>catch\<close> block
  (lines 126 to 136) and the \<^verbatim>\<open>finally\<close> block. \<^verbatim>\<open>retryCount\<close> in the test and in the
  delay is the captured one; \<^verbatim>\<open>setRetryCount(prev => prev + 1)\<close> works on the cell. The
  callback \<^verbatim>\<open>() => fetchData(true)\<close> names the \<^verbatim>\<open>fetchData\<close> of the render that built
  this function, which is this closure, so the timer is kept with the closure of the
  call. The block ends with \<^verbatim>\<open>throw err\<close>: the first component is what the call throws
  to its caller.
\<close>

definition fetchData_rejected :: "options \<Rightarrow> pending \<Rightarrow> thrown \<Rightarrow> world \<Rightarrow> thrown \<times> world" where
  "fetchData_rejected opts p err w =
     (let errorMessage = (case err of ErrorObject m \<Rightarrow> m | OtherValue \<Rightarrow> ''Unknown error'');
          w1 = w\<lparr>error := Some errorMessage\<rparr>;
          cl = p_closure p;
          w2 = (if retryOnError opts \<and> int (cl_retryCount cl) < maxRetries opts
                then w1\<lparr>retryCount := retryCount w1 + 1,
                        timers := timers w1 @ [(2 ^ cl_retryCount cl * 1000, cl)]\<rparr>
                else w1)
      in (err, w2\<lparr>isLoading := False, abortControllerRef := None\<rparr>))"

text \<open>\<^verbatim>\<open>refresh\<close> and \<^verbatim>\<open>invalidate\<close> (lines 145 to 153).\<close>

definition refresh :: "options \<Rightarrow> closure \<Rightarrow> int \<Rightarrow> world \<Rightarrow> outcome \<times> world" where
  "refresh opts cl now w =
     fetchData opts cl True now
       (w\<lparr>globalCache := DataCache_invalidate (globalCache w) (Some (key opts))\<rparr>)"

definition invalidate :: "options \<Rightarrow> world \<Rightarrow> world" where
  "invalidate opts w =
     (let w1 = w\<lparr>globalCache := DataCache_invalidate (globalCache w) (Some (key opts))\<rparr>
      in w1\<lparr>hook_data := JNull\<rparr>)"

text \<open>
  The effects: the initial load (lines 156 to 158), the focus callback (lines 161 to 170;
  \<open>None\<close> when it does not call \<^verbatim>\<open>fetchData\<close>) and the cleanup on unmount (lines 173 to
  179). The first two call the \<^verbatim>\<open>fetchData\<close> of the render they belong to.
\<close>

definition initialLoad :: "options \<Rightarrow> closure \<Rightarrow> int \<Rightarrow> world \<Rightarrow> outcome \<times> world" where
  "initialLoad opts cl now w = fetchData opts cl False now w"

definition onFocus :: "options \<Rightarrow> closure \<Rightarrow> int \<Rightarrow> world \<Rightarrow> outcome option \<times> world" where
  "onFocus opts cl now w =
     (if refreshOnFocus opts then
        (case DataCache_get (globalCache w) (key opts) now of
           (cached, cache') \<Rightarrow>
             (let w1 = w\<lparr>globalCache := cache'\<rparr>
              in if (case cached of None \<Rightarrow> True | Some v \<Rightarrow> \<not> truthy v)
                 then (case fetchData opts cl False now w1 of (r, w2) \<Rightarrow> (Some r, w2))
                 else (None, w1)))
      else (None, w))"

definition unmount :: "world \<Rightarrow> world" where
  "unmount w =
     (case abortControllerRef w of
        None \<Rightarrow> w
      | Some i \<Rightarrow> w\<lparr>controllers := abort i (controllers w)\<rparr>)"

subsection \<open>Running the hook against a fetch that fails\<close>

text \<open>
  One call of \<^verbatim>\<open>fetchData\<close> whose \<^verbatim>\<open>fetchFn()\<close>, if it is reached, rejects with \<open>err\<close>.
\<close>

definition failing_call :: "options \<Rightarrow> thrown \<Rightarrow> closure \<Rightarrow> bool \<Rightarrow> int \<Rightarrow> world \<Rightarrow> world" where
  "failing_call opts err cl force now w =
     (case fetchData opts cl force now w of
        (Awaiting p, w1) \<Rightarrow> snd (fetchData_rejected opts p err w1)
      | (Resolved_cached v, w1) \<Rightarrow> w1
      | (Resolved_undefined, w1) \<Rightarrow> w1)"

text \<open>
  The timers run: up to \<open>n\<close> times, the oldest waiting \<^verbatim>\<open>setTimeout\<close> callback is taken,
  the clock moves on by its delay, and the callback calls \<^verbatim>\<open>fetchData(true)\<close> of its
  closure against the failing fetch. The run stops early when no callback is waiting.
\<close>

fun run_timers :: "options \<Rightarrow> thrown \<Rightarrow> nat \<Rightarrow> int \<Rightarrow> world \<Rightarrow> world" where
  "run_timers opts err 0 now w = w"
| "run_timers opts err (Suc n) now w =
     (case timers w of
        [] \<Rightarrow> w
      | (delay, cl) # waiting \<Rightarrow>
          run_timers opts err n (now + delay)
            (failing_call opts err cl True (now + delay) (w\<lparr>timers := waiting\<rparr>)))"


subsection \<open>The runs that the properties below are checked on\<close>

text \<open>
  A screen that shows the meals of the user, with the default options, and a network
  that is down. Times are milliseconds since the epoch.
\<close>

definition meals :: options where
  "meals = default_options ''meals''"

definition network_down :: thrown where
  "network_down = ErrorObject ''Network request failed''"

definition first_render :: closure where
  "first_render = render init_world"

text \<open>
  The initial load of the first render is suspended at its fetch (\<open>older\<close>); 100 ms later
  the user refreshes, which suspends a second call (\<open>newer\<close>); the fetch of the second
  call resolves first, the fetch of the first call 100 ms after it.
\<close>

definition older :: pending where
  "older = \<lparr>p_closure = first_render, p_now = 1700000000000, p_controller = 0\<rparr>"

definition newer :: pending where
  "newer = \<lparr>p_closure = \<lparr>cl_isLoading = True, cl_retryCount = 0\<rparr>,
            p_now = 1700000000100, p_controller = 1\<rparr>"

definition older_started :: world where
  "older_started = snd (initialLoad meals first_render 1700000000000 init_world)"

definition newer_started :: world where
  "newer_started = snd (refresh meals (render older_started) 1700000000100 older_started)"

definition newer_done :: world where
  "newer_done = fetchData_resolved meals newer (JObj 2) 1700000000200 newer_started"

definition older_done :: world where
  "older_done = fetchData_resolved meals older (JObj 1) 1700000000300 newer_done"

text \<open>The initial load fails.\<close>

definition failed_once :: world where
  "failed_once = failing_call meals network_down first_render False 1700000000000 init_world"

text \<open>The initial load succeeds after five seconds, with the number 0.\<close>

definition slow_success :: world where
  "slow_success = fetchData_resolved meals older (JNum 0) 1700000005000 older_started"

lemmas hook_defs =
  meals_def network_down_def first_render_def default_options_def init_world_def render_def
  fetchData_def guards_def startFetch_def fetchData_resolved_def fetchData_rejected_def
  failing_call_def refresh_def initialLoad_def DataCache_get_def DataCache_set_def
  DataCache_invalidate_def abort_def

section \<open>Properties of the cache store\<close>

subsection \<open>The map operations\<close>

lemma Map_get_set: "Map_get (Map_set m k v) k' = (if k' = k then Some v else Map_get m k')"
  by (induction m) auto

lemma Map_set_entries: "set (Map_set m k v) \<subseteq> insert (k, v) (set m)"
  by (induction m) (auto split: if_splits)

lemma Map_delete_filter: "Map_delete m k = filter (\<lambda>p. fst p \<noteq> k) m"
  by (induction m) auto

lemma Map_get_delete: "Map_get (Map_delete m k) k' = (if k' = k then None else Map_get m k')"
  by (induction m) auto

lemma Map_keys_delete: "k \<notin> set (Map_keys (Map_delete m k))"
  by (auto simp: Map_keys_def Map_delete_filter)

lemma Map_get_None_iff: "Map_get m k = None \<longleftrightarrow> k \<notin> set (Map_keys m)"
  by (induction m) (auto simp: Map_keys_def split: if_splits)

lemma Map_get_Some_mem: "Map_get m k = Some v \<Longrightarrow> (k, v) \<in> set m"
  by (induction m) (auto split: if_splits)

text \<open>
  A JavaScript \<^verbatim>\<open>Map\<close> holds a key once. The list that models it has this property
  from the empty map on: \<^verbatim>\<open>set\<close> and \<^verbatim>\<open>delete\<close> keep it.
\<close>

lemma Map_keys_set:
  "Map_keys (Map_set m k v) = (if k \<in> set (Map_keys m) then Map_keys m else Map_keys m @ [k])"
  by (induction m) (force simp: Map_keys_def)+

lemma Map_set_distinct: "distinct (Map_keys m) \<Longrightarrow> distinct (Map_keys (Map_set m k v))"
  by (simp add: Map_keys_set)

lemma Map_delete_distinct: "distinct (Map_keys m) \<Longrightarrow> distinct (Map_keys (Map_delete m k))"
  by (simp add: Map_keys_def Map_delete_filter distinct_map_filter)

text \<open>
  Both loops delete by key, so what they leave is the map filtered by a test on the key:
  a pair stays unless an entry visited under its key asked for the deletion.
\<close>

lemma cleanup_loop_filter:
  "cleanup_loop now todo cache =
     filter (\<lambda>p. \<forall>q \<in> set todo. fst q = fst p \<longrightarrow> \<not> now > expiresAt (snd q)) cache"
proof (induction todo arbitrary: cache)
  case Nil
  show ?case by simp
next
  case (Cons a todo)
  obtain k e where a: "a = (k, e)" by (cases a)
  show ?case
    unfolding a by (auto simp: Cons.IH Map_delete_filter intro!: filter_cong)
qed

lemma invalidate_loop_filter:
  "invalidate_loop pat todo cache =
     filter (\<lambda>p. \<not> (fst p \<in> fst ` set todo \<and> includes_str (fst p) pat)) cache"
proof (induction todo arbitrary: cache)
  case Nil
  show ?case by simp
next
  case (Cons a todo)
  obtain k v where a: "a = (k, v)" by (cases a)
  show ?case
    unfolding a by (auto simp: Cons.IH Map_delete_filter intro!: filter_cong)
qed

lemma startsWith_refl: "startsWith s s"
  by (induction s) auto

lemma includes_str_refl: "includes_str s s"
  by (cases s) (auto simp: startsWith_refl)

lemma cleanup_entries: "set (DataCache_cleanup cache now) \<subseteq> set cache"
  by (simp add: DataCache_cleanup_def cleanup_loop_filter)

lemma cleanup_no_expired:
  "p \<in> set (DataCache_cleanup cache now) \<Longrightarrow> now \<le> expiresAt (snd p)"
  by (fastforce simp: DataCache_cleanup_def cleanup_loop_filter)

lemma cleanup_drops_key:
  assumes "Map_get cache k = Some entry" and "expiresAt entry < now"
  shows "k \<notin> set (Map_keys (DataCache_cleanup cache now))"
proof -
  from assms(1) have "(k, entry) \<in> set cache" by (rule Map_get_Some_mem)
  with assms(2) show ?thesis
    by (fastforce simp: DataCache_cleanup_def cleanup_loop_filter Map_keys_def)
qed

lemma invalidate_entries: "set (DataCache_invalidate cache pattern) \<subseteq> set cache"
  by (auto simp: DataCache_invalidate_def invalidate_loop_filter split: option.splits)

lemma invalidate_drops_key: "k \<notin> set (Map_keys (DataCache_invalidate cache (Some k)))"
  by (auto simp: DataCache_invalidate_def invalidate_loop_filter Map_keys_def includes_str_refl)

lemma get_entries: "set (snd (DataCache_get cache k now)) \<subseteq> set cache"
  by (auto simp: DataCache_get_def Map_delete_filter split: option.splits)

text \<open>
  Seen through the lookup: a filter by a test on the key answers as the map did, or not at
  all, and so do \<^verbatim>\<open>cleanup\<close>, \<^verbatim>\<open>invalidate\<close> and the store that \<^verbatim>\<open>get\<close> leaves. An entry
  that has not expired stays through a \<^verbatim>\<open>cleanup\<close> of a map that holds its key once.
\<close>

lemma Map_get_filter_key:
  "Map_get (filter (\<lambda>p. Q (fst p)) m) k = (if Q k then Map_get m k else None)"
  by (induction m) auto

lemma Map_get_unique:
  "distinct (Map_keys m) \<Longrightarrow> Map_get m k = Some v \<Longrightarrow> (k, x) \<in> set m \<Longrightarrow> x = v"
  by (induction m) (force simp: Map_keys_def split: if_splits)+

lemma cleanup_lookup:
  "Map_get (DataCache_cleanup cache now) k =
     (if \<forall>q \<in> set cache. fst q = k \<longrightarrow> now \<le> expiresAt (snd q) then Map_get cache k else None)"
  using Map_get_filter_key
    [of "\<lambda>k. \<forall>q \<in> set cache. fst q = k \<longrightarrow> now \<le> expiresAt (snd q)" cache k]
  by (simp add: DataCache_cleanup_def cleanup_loop_filter not_less)

lemma invalidate_lookup:
  assumes "Map_get (DataCache_invalidate cache pattern) k = Some e"
  shows "Map_get cache k = Some e"
proof (cases pattern)
  case None
  with assms show ?thesis by (simp add: DataCache_invalidate_def)
next
  case (Some pat)
  have "Map_get (invalidate_loop pat cache cache) k =
          (if \<not> (k \<in> fst ` set cache \<and> includes_str k pat) then Map_get cache k else None)"
    using Map_get_filter_key
      [of "\<lambda>k. \<not> (k \<in> fst ` set cache \<and> includes_str k pat)" cache k]
    by (simp add: invalidate_loop_filter)
  with assms Some show ?thesis
    by (cases "pat = []") (auto simp: DataCache_invalidate_def split: if_splits)
qed

lemma cleanup_lookup_old:
  "Map_get (DataCache_cleanup cache now) k = Some e \<Longrightarrow> Map_get cache k = Some e"
  by (simp add: cleanup_lookup split: if_splits)

lemma get_lookup:
  "Map_get (snd (DataCache_get cache k' now)) k = Some e \<Longrightarrow> Map_get cache k = Some e"
  by (auto simp: DataCache_get_def Map_get_delete split: option.splits if_splits)

lemma cleanup_keeps_fresh:
  assumes "distinct (Map_keys cache)" and "Map_get cache k = Some entry"
    and "now \<le> expiresAt entry"
  shows "Map_get (DataCache_cleanup cache now) k = Some entry"
proof -
  have "\<forall>q \<in> set cache. fst q = k \<longrightarrow> now \<le> expiresAt (snd q)"
  proof (intro ballI impI)
    fix q assume "q \<in> set cache" and "fst q = k"
    then have "(k, snd q) \<in> set cache" by auto
    from Map_get_unique [OF assms(1,2) this] assms(3)
    show "now \<le> expiresAt (snd q)" by simp
  qed
  with assms(2) show ?thesis by (simp add: cleanup_lookup)
qed

subsection \<open>Expiry\<close>

text \<open>
  With the two clock readings of \<^verbatim>\<open>set\<close> kept apart: the value is returned up to the
  second reading plus the ttl, and not after it.
\<close>

lemma get_after_set:
  "DataCache_get (DataCache_set cache k v (Some dur) now1 now2) k q =
     (if now2 + dur < q
      then (None, Map_delete (DataCache_set cache k v (Some dur) now1 now2) k)
      else (Some v, DataCache_set cache k v (Some dur) now1 now2))"
  by (simp add: DataCache_get_def DataCache_set_def Map_get_set)

text \<open>
  C4. For every ttl above 0, a value stored at the time \<open>t\<close> with that ttl is returned by
  \<^verbatim>\<open>get\<close> at every query time from \<open>t\<close> to \<open>t + ttl\<close>, both ends included, and the store
  is left as it was; at every query time after \<open>t + ttl\<close>, \<^verbatim>\<open>get\<close> returns \<^verbatim>\<open>null\<close>.
\<close>

theorem ttl_correctness:
  assumes "0 < dur"
  shows "(t \<le> q \<and> q \<le> t + dur \<longrightarrow>
            DataCache_get (DataCache_set cache k v (Some dur) t t) k q
              = (Some v, DataCache_set cache k v (Some dur) t t))
       \<and> (t + dur < q \<longrightarrow>
            fst (DataCache_get (DataCache_set cache k v (Some dur) t t) k q) = None)"
  by (simp add: get_after_set)

text \<open>The last millisecond of a five minute entry, and the first one after it.\<close>

theorem ttl_correctness_witness:
  "DataCache_get (DataCache_set [] ''meals'' (JObj 1) (Some 300000) 1700000000000 1700000000000)
       ''meals'' 1700000300000
     = (Some (JObj 1),
        [(''meals'', \<lparr>data = JObj 1, timestamp = 1700000000000, expiresAt = 1700000300000\<rparr>)])
   \<and> fst (DataCache_get
            (DataCache_set [] ''meals'' (JObj 1) (Some 300000) 1700000000000 1700000000000)
            ''meals'' 1700000300001) = None"
  using ttl_correctness [of 300000 1700000000000 1700000300000 "[]" "''meals''" "JObj 1"]
    ttl_correctness [of 300000 1700000000000 1700000300001 "[]" "''meals''" "JObj 1"]
  by (simp add: DataCache_set_def)

text \<open>
  C10. \<^verbatim>\<open>get\<close> on a key whose entry has expired returns \<^verbatim>\<open>null\<close> and leaves a store whose
  key set does not hold the key: the entry is evicted by the read itself.
\<close>

theorem get_evicts_expired_entry:
  assumes "Map_get cache k = Some entry" and "expiresAt entry < now"
  shows "fst (DataCache_get cache k now) = None
       \<and> k \<notin> set (Map_keys (snd (DataCache_get cache k now)))"
  using assms by (simp add: DataCache_get_def Map_keys_delete)

theorem get_evicts_expired_entry_witness:
  "fst (DataCache_get [(''meals'', \<lparr>data = JObj 1, timestamp = 1000, expiresAt = 2000\<rparr>)]
          ''meals'' 2001) = None
   \<and> ''meals'' \<notin> set (Map_keys (snd (DataCache_get
          [(''meals'', \<lparr>data = JObj 1, timestamp = 1000, expiresAt = 2000\<rparr>)] ''meals'' 2001)))"
  using get_evicts_expired_entry
    [of "[(''meals'', \<lparr>data = JObj 1, timestamp = 1000, expiresAt = 2000\<rparr>)]" "''meals''"
        "\<lparr>data = JObj 1, timestamp = 1000, expiresAt = 2000\<rparr>" 2001]
  by simp

text \<open>
  C9, as the claim has it, fails at the boundary: an entry stored with the ttl 0 expires at
  the millisecond of its insertion, and a sweep in that millisecond leaves its key in the
  key set, since \<^verbatim>\<open>cleanup\<close> tests \<^verbatim>\<open>now > entry.expiresAt\<close>.
\<close>

theorem sweep_in_the_millisecond_of_expiry_keeps_entry:
  "DataCache_set [] ''meals'' (JObj 1) (Some 0) 1700000000000 1700000000000
     = [(''meals'', \<lparr>data = JObj 1, timestamp = 1700000000000, expiresAt = 1700000000000\<rparr>)]
   \<and> Map_keys (DataCache_cleanup
        (DataCache_set [] ''meals'' (JObj 1) (Some 0) 1700000000000 1700000000000)
        1700000000000) = [''meals'']"
  by (simp add: DataCache_cleanup_def DataCache_set_def Map_keys_def)

text \<open>
  C9, amended. After \<^verbatim>\<open>cleanup\<close> at the time \<open>now\<close>, no entry is left whose \<^verbatim>\<open>expiresAt\<close>
  lies before \<open>now\<close>, and a key whose entry had expired is not in the key set any more.
  An entry stored with the ttl 0, or with a negative one, is gone from the key set after
  a sweep at a time later than its \<^verbatim>\<open>expiresAt\<close>. A sweep at \<^verbatim>\<open>expiresAt\<close> or before it
  keeps the entry, in a store that holds every key once.
\<close>

theorem cleanup_removes_expired:
  "(\<forall>p \<in> set (DataCache_cleanup cache now). now \<le> expiresAt (snd p))
   \<and> (\<forall>k entry. Map_get cache k = Some entry \<and> expiresAt entry < now \<longrightarrow>
         k \<notin> set (Map_keys (DataCache_cleanup cache now)))
   \<and> (t + dur < now \<longrightarrow>
         k' \<notin> set (Map_keys (DataCache_cleanup (DataCache_set cache k' v (Some dur) t t) now)))
   \<and> (\<forall>k entry. distinct (Map_keys cache) \<and> Map_get cache k = Some entry
                   \<and> now \<le> expiresAt entry \<longrightarrow>
         Map_get (DataCache_cleanup cache now) k = Some entry)
   \<and> (distinct (Map_keys cache) \<and> now \<le> t + dur \<longrightarrow>
         k' \<in> set (Map_keys (DataCache_cleanup (DataCache_set cache k' v (Some dur) t t) now)))"
proof (intro conjI allI impI ballI)
  fix p assume "p \<in> set (DataCache_cleanup cache now)"
  then show "now \<le> expiresAt (snd p)" by (rule cleanup_no_expired)
next
  fix k entry assume "Map_get cache k = Some entry \<and> expiresAt entry < now"
  then show "k \<notin> set (Map_keys (DataCache_cleanup cache now))"
    using cleanup_drops_key by blast
next
  assume late: "t + dur < now"
  have "Map_get (DataCache_set cache k' v (Some dur) t t) k'
          = Some \<lparr>data = v, timestamp = t, expiresAt = t + dur\<rparr>"
    by (simp add: DataCache_set_def Map_get_set)
  from cleanup_drops_key [OF this] late
  show "k' \<notin> set (Map_keys (DataCache_cleanup (DataCache_set cache k' v (Some dur) t t) now))"
    by simp
next
  fix k entry
  assume "distinct (Map_keys cache) \<and> Map_get cache k = Some entry \<and> now \<le> expiresAt entry"
  then show "Map_get (DataCache_cleanup cache now) k = Some entry"
    by (simp add: cleanup_keeps_fresh)
next
  let ?c = "DataCache_set cache k' v (Some dur) t t"
  assume early: "distinct (Map_keys cache) \<and> now \<le> t + dur"
  then have "distinct (Map_keys ?c)"
    by (simp add: DataCache_set_def Map_set_distinct)
  moreover have "Map_get ?c k' = Some \<lparr>data = v, timestamp = t, expiresAt = t + dur\<rparr>"
    by (simp add: DataCache_set_def Map_get_set)
  ultimately have "Map_get (DataCache_cleanup ?c now) k'
      = Some \<lparr>data = v, timestamp = t, expiresAt = t + dur\<rparr>"
    using early by (intro cleanup_keeps_fresh) simp_all
  then show "k' \<in> set (Map_keys (DataCache_cleanup ?c now))"
    using Map_get_None_iff [of "DataCache_cleanup ?c now" k'] by simp
qed

text \<open>
  An entry stored with the ttl 0 is swept a millisecond later, and its neighbour stays; a
  sweep in the millisecond of the insertion keeps it.
\<close>

theorem cleanup_removes_expired_witness:
  "DataCache_cleanup
     (DataCache_set [(''week'', \<lparr>data = JObj 7, timestamp = 1000, expiresAt = 9000\<rparr>)]
        ''meals'' (JObj 1) (Some 0) 2000 2000) 2001
     = [(''week'', \<lparr>data = JObj 7, timestamp = 1000, expiresAt = 9000\<rparr>)]
   \<and> ''meals'' \<notin> set (Map_keys (DataCache_cleanup
        (DataCache_set [(''week'', \<lparr>data = JObj 7, timestamp = 1000, expiresAt = 9000\<rparr>)]
           ''meals'' (JObj 1) (Some 0) 2000 2000) 2001))
   \<and> Map_get (DataCache_cleanup
        (DataCache_set [(''week'', \<lparr>data = JObj 7, timestamp = 1000, expiresAt = 9000\<rparr>)]
           ''meals'' (JObj 1) (Some 0) 2000 2000) 2001) ''week''
       = Some \<lparr>data = JObj 7, timestamp = 1000, expiresAt = 9000\<rparr>
   \<and> ''meals'' \<in> set (Map_keys (DataCache_cleanup
        (DataCache_set [(''week'', \<lparr>data = JObj 7, timestamp = 1000, expiresAt = 9000\<rparr>)]
           ''meals'' (JObj 1) (Some 0) 2000 2000) 2000))"
  using cleanup_removes_expired
    [of "DataCache_set [(''week'', \<lparr>data = JObj 7, timestamp = 1000, expiresAt = 9000\<rparr>)]
           ''meals'' (JObj 1) (Some 0) 2000 2000" 2001 2000 0 "''meals''" "JObj 1"]
    cleanup_removes_expired
    [of "[(''week'', \<lparr>data = JObj 7, timestamp = 1000, expiresAt = 9000\<rparr>)]"
        2000 2000 0 "''meals''" "JObj 1"]
  by (simp add: DataCache_cleanup_def DataCache_set_def Map_keys_def)

text \<open>
  C8, as the claim has it, fails for a negative ttl: stored with the ttl -60000, the entry
  expires a minute before its own timestamp.
\<close>

theorem set_entry_expires_before_timestamp:
  "DataCache_set [] ''meals'' (JObj 1) (Some (- 60000)) 1700000000000 1700000000000
     = [(''meals'', \<lparr>data = JObj 1, timestamp = 1700000000000, expiresAt = 1699999940000\<rparr>)]
   \<and> expiresAt \<lparr>data = JObj 1, timestamp = 1700000000000, expiresAt = 1699999940000\<rparr>
       < timestamp \<lparr>data = JObj 1, timestamp = 1700000000000, expiresAt = 1699999940000\<rparr>"
  by (simp add: DataCache_set_def)

text \<open>
  C8, amended. When the ttl passed to \<^verbatim>\<open>set\<close> is not negative (the default of five
  minutes included) and the clock does not run backwards between the two readings, the
  entry that \<^verbatim>\<open>set\<close> stores has \<^verbatim>\<open>expiresAt\<close> at or after \<^verbatim>\<open>timestamp\<close>. The entry is a new
  one that takes the place of the old entry of the key: after \<^verbatim>\<open>set\<close> the key answers
  with the new entry and every other key answers as before, the keys are the old ones,
  with the key added at the end if it is new, and no pair is in the store that is
  neither an old one nor the new one. \<^verbatim>\<open>get\<close>, \<^verbatim>\<open>cleanup\<close> and \<^verbatim>\<open>invalidate\<close> only remove
  pairs: an entry that a key answers with after them is the entry it answered with
  before.
\<close>

theorem set_entry_expiry_after_timestamp:
  assumes "now1 \<le> now2" and "case dur of None \<Rightarrow> True | Some n \<Rightarrow> 0 \<le> n"
  shows "(\<exists>entry. data entry = v \<and> timestamp entry = now1
            \<and> timestamp entry \<le> expiresAt entry
            \<and> (\<forall>k''. Map_get (DataCache_set cache k v dur now1 now2) k''
                        = (if k'' = k then Some entry else Map_get cache k''))
            \<and> set (DataCache_set cache k v dur now1 now2) \<subseteq> insert (k, entry) (set cache))
       \<and> Map_keys (DataCache_set cache k v dur now1 now2)
           = (if k \<in> set (Map_keys cache) then Map_keys cache else Map_keys cache @ [k])
       \<and> (\<forall>k'' e. Map_get (snd (DataCache_get cache k' now)) k'' = Some e
                     \<longrightarrow> Map_get cache k'' = Some e)
       \<and> (\<forall>k'' e. Map_get (DataCache_cleanup cache now) k'' = Some e
                     \<longrightarrow> Map_get cache k'' = Some e)
       \<and> (\<forall>k'' e. Map_get (DataCache_invalidate cache pattern) k'' = Some e
                     \<longrightarrow> Map_get cache k'' = Some e)
       \<and> set (snd (DataCache_get cache k' now)) \<subseteq> set cache
       \<and> set (DataCache_cleanup cache now) \<subseteq> set cache
       \<and> set (DataCache_invalidate cache pattern) \<subseteq> set cache"
proof -
  let ?e = "\<lparr>data = v, timestamp = now1,
             expiresAt = now2 + (case dur of None \<Rightarrow> DEFAULT_TTL | Some n \<Rightarrow> n)\<rparr>"
  have stored: "DataCache_set cache k v dur now1 now2 = Map_set cache k ?e"
    by (simp add: DataCache_set_def)
  have "0 \<le> (case dur of None \<Rightarrow> DEFAULT_TTL | Some n \<Rightarrow> n)"
    using assms(2) by (simp add: DEFAULT_TTL_def split: option.splits)
  with assms(1) have "timestamp ?e \<le> expiresAt ?e" by simp
  moreover have "\<forall>k''. Map_get (Map_set cache k ?e) k''
                   = (if k'' = k then Some ?e else Map_get cache k'')"
    by (simp add: Map_get_set)
  moreover have "set (Map_set cache k ?e) \<subseteq> insert (k, ?e) (set cache)"
    by (rule Map_set_entries)
  ultimately have new: "\<exists>entry. data entry = v \<and> timestamp entry = now1
            \<and> timestamp entry \<le> expiresAt entry
            \<and> (\<forall>k''. Map_get (DataCache_set cache k v dur now1 now2) k''
                        = (if k'' = k then Some entry else Map_get cache k''))
            \<and> set (DataCache_set cache k v dur now1 now2) \<subseteq> insert (k, entry) (set cache)"
    unfolding stored by (intro exI [of _ ?e]) simp
  have keys: "Map_keys (DataCache_set cache k v dur now1 now2)
           = (if k \<in> set (Map_keys cache) then Map_keys cache else Map_keys cache @ [k])"
    unfolding stored by (rule Map_keys_set)
  from new keys show ?thesis
    using get_entries [of cache k' now] cleanup_entries [of cache now]
      invalidate_entries [of cache pattern] get_lookup [of cache k' now]
      cleanup_lookup_old [of cache now] invalidate_lookup [of cache pattern]
    by (intro conjI allI impI) assumption+
qed

text \<open>
  The default ttl, with the clock one millisecond on at the second reading, on a store
  that holds the key and another one: the entry of the key is replaced in its place and
  the other entry is as it was.
\<close>

theorem set_entry_expiry_after_timestamp_witness:
  "DataCache_set
     [(''week'', \<lparr>data = JObj 7, timestamp = 1699999000000, expiresAt = 1700000500000\<rparr>),
      (''meals'', \<lparr>data = JObj 0, timestamp = 1699999990000, expiresAt = 1700000290000\<rparr>)]
     ''meals'' (JObj 1) None 1700000000000 1700000000001
   = [(''week'', \<lparr>data = JObj 7, timestamp = 1699999000000, expiresAt = 1700000500000\<rparr>),
      (''meals'', \<lparr>data = JObj 1, timestamp = 1700000000000, expiresAt = 1700000300001\<rparr>)]
   \<and> (\<exists>entry. data entry = JObj 1 \<and> timestamp entry = 1700000000000
         \<and> timestamp entry \<le> expiresAt entry
         \<and> Map_get (DataCache_set
     [(''week'', \<lparr>data = JObj 7, timestamp = 1699999000000, expiresAt = 1700000500000\<rparr>),
      (''meals'', \<lparr>data = JObj 0, timestamp = 1699999990000, expiresAt = 1700000290000\<rparr>)]
     ''meals'' (JObj 1) None 1700000000000 1700000000001) ''meals'' = Some entry)
   \<and> Map_get (DataCache_set
     [(''week'', \<lparr>data = JObj 7, timestamp = 1699999000000, expiresAt = 1700000500000\<rparr>),
      (''meals'', \<lparr>data = JObj 0, timestamp = 1699999990000, expiresAt = 1700000290000\<rparr>)]
     ''meals'' (JObj 1) None 1700000000000 1700000000001) ''week''
      = Some \<lparr>data = JObj 7, timestamp = 1699999000000, expiresAt = 1700000500000\<rparr>"
  using set_entry_expiry_after_timestamp
    [of 1700000000000 1700000000001 None "JObj 1"
        "[(''week'', \<lparr>data = JObj 7, timestamp = 1699999000000, expiresAt = 1700000500000\<rparr>),
          (''meals'', \<lparr>data = JObj 0, timestamp = 1699999990000, expiresAt = 1700000290000\<rparr>)]"
        "''meals''"]
  by (simp add: DataCache_set_def DEFAULT_TTL_def)


section \<open>Properties of the hook\<close>

subsection \<open>What one call does\<close>

lemma forced_call_starts_fetch: "fetchData opts cl True now w = startFetch cl now w"
  by (simp add: fetchData_def guards_def)

lemma startFetch_calls:
  "fetchFn_calls (snd (startFetch cl now w)) = fetchFn_calls w @ [now]"
  "timers (snd (startFetch cl now w)) = timers w"
  "retryCount (snd (startFetch cl now w)) = retryCount w"
  "fst (startFetch cl now w) =
     Awaiting \<lparr>p_closure = cl, p_now = now, p_controller = length (controllers w)\<rparr>"
  by (simp_all add: startFetch_def Let_def abort_def split: option.splits)

text \<open>The guard on \<^verbatim>\<open>isLoading\<close> holds back a call of a closure that captured \<^verbatim>\<open>true\<close>.\<close>

lemma loading_closure_is_suppressed:
  assumes "cl_isLoading cl"
  shows "fetchFn_calls (snd (fetchData opts cl False now w)) = fetchFn_calls w"
  using assms
  by (simp add: fetchData_def guards_def DataCache_get_def Let_def split: option.splits)

lemma rate_limited_call:
  assumes "now - lastFetchRef w < 1000"
  shows "fetchFn_calls (snd (fetchData opts cl False now w)) = fetchFn_calls w"
    and "fst (fetchData opts cl False now w) \<noteq> Awaiting q"
  using assms
  by (simp_all add: fetchData_def guards_def DataCache_get_def Let_def split: option.splits)

text \<open>
  The rest of a call after its fetch has resolved does the same whatever the flags of the
  controllers are.
\<close>

lemma resolution_ignores_abort:
  "fetchData_resolved opts p v t (w\<lparr>controllers := cs\<rparr>)
     = (fetchData_resolved opts p v t w)\<lparr>controllers := cs\<rparr>"
  by (simp add: fetchData_resolved_def)

text \<open>
  So it is after the cleanup on unmount, which only sets a flag: the result of the fetch
  still goes into the cache.
\<close>

lemma resolution_after_unmount_writes_cache:
  "globalCache (fetchData_resolved opts p v t (unmount w))
     = DataCache_set (globalCache w) (key opts) v (Some (ttl opts)) t t"
  by (simp add: fetchData_resolved_def unmount_def split: option.splits)

lemma rejected_timers:
  "timers (snd (fetchData_rejected opts p err w)) =
     timers w @ (if retryOnError opts \<and> int (cl_retryCount (p_closure p)) < maxRetries opts
                 then [(2 ^ cl_retryCount (p_closure p) * 1000, p_closure p)] else [])"
  by (simp add: fetchData_rejected_def Let_def)

lemma rejected_calls:
  "fetchFn_calls (snd (fetchData_rejected opts p err w)) = fetchFn_calls w"
  by (simp add: fetchData_rejected_def Let_def)

lemma failing_forced_call_eq:
  "failing_call opts err cl True now w =
     snd (fetchData_rejected opts
            \<lparr>p_closure = cl, p_now = now, p_controller = length (controllers w)\<rparr> err
            (snd (startFetch cl now w)))"
  by (simp add: failing_call_def forced_call_starts_fetch startFetch_def Let_def abort_def
           split: option.splits)

lemma failing_forced_call:
  assumes "retryOnError opts" and "int (cl_retryCount cl) < maxRetries opts"
  shows "fetchFn_calls (failing_call opts err cl True now w) = fetchFn_calls w @ [now]"
    and "timers (failing_call opts err cl True now w)
           = timers w @ [(2 ^ cl_retryCount cl * 1000, cl)]"
  using assms
  by (simp_all add: failing_forced_call_eq rejected_calls rejected_timers startFetch_calls)

text \<open>
  A retry is a call of the closure that failed, so it fails the test
  \<^verbatim>\<open>retryCount < maxRetries\<close> no sooner than that closure did: against a fetch that always
  fails, every timer that runs leaves a timer with the same delay behind it.
\<close>

lemma retries_go_on:
  assumes "retryOnError opts" and "int (cl_retryCount cl) < maxRetries opts"
    and "timers w = [(2 ^ cl_retryCount cl * 1000, cl)]"
  shows "length (fetchFn_calls (run_timers opts err n now w)) = length (fetchFn_calls w) + n
       \<and> timers (run_timers opts err n now w) = [(2 ^ cl_retryCount cl * 1000, cl)]"
  using assms(3)
proof (induction n arbitrary: now w)
  case 0
  then show ?case by simp
next
  case (Suc n)
  let ?d = "2 ^ cl_retryCount cl * 1000 :: int"
  let ?w = "failing_call opts err cl True (now + ?d) (w\<lparr>timers := []\<rparr>)"
  have step: "run_timers opts err (Suc n) now w = run_timers opts err n (now + ?d) ?w"
    using Suc.prems by simp
  have "timers ?w = [(?d, cl)]"
    using failing_forced_call(2) [OF assms(1,2)] by simp
  from Suc.IH [OF this]
  show ?case
    unfolding step using failing_forced_call(1) [OF assms(1,2)] by simp
qed

subsection \<open>Supersession\<close>

text \<open>
  C1. The claim: once the token of a request is cancelled, the resolution of its fetch
  changes neither the state of the hook nor the cache. In the run below the refresh
  aborts the controller of the initial load (flag \<open>True\<close> at index 0) and its own fetch
  brings the object 2 into the data cell and the cache; then the fetch of the aborted
  initial load resolves, and the data cell and the cache entry hold the object 1, and
  \<^verbatim>\<open>lastFetchRef\<close> is taken back to the entry time of the older call.
\<close>

theorem superseded_fetch_overwrites_newer_result:
  "fst (initialLoad meals first_render 1700000000000 init_world) = Awaiting older
   \<and> fst (refresh meals (render older_started) 1700000000100 older_started) = Awaiting newer
   \<and> controllers newer_started = [True, False]
   \<and> hook_data newer_done = JObj 2
   \<and> globalCache newer_done =
       [(''meals'', \<lparr>data = JObj 2, timestamp = 1700000000200, expiresAt = 1700000300200\<rparr>)]
   \<and> lastFetchRef newer_done = 1700000000100
   \<and> controllers older_done = [True, False]
   \<and> hook_data older_done = JObj 1
   \<and> globalCache older_done =
       [(''meals'', \<lparr>data = JObj 1, timestamp = 1700000000300, expiresAt = 1700000300300\<rparr>)]
   \<and> lastFetchRef older_done = 1700000000000"
  by (simp add: older_def newer_def older_started_def newer_started_def newer_done_def
        older_done_def hook_defs)

subsection \<open>Retries\<close>

text \<open>
  C2. The claim: with \<^verbatim>\<open>maxRetries = 3\<close> and a fetch that always fails there are four
  invocations, 1 s, 2 s and 4 s apart, and then no further retry. In the run below the
  initial load fails and the timers run: the fifth invocation takes place, the
  invocations are 1 s apart throughout, a timer is still waiting after it, and the
  retry count stands at 5.
\<close>

theorem retries_neither_stop_nor_back_off:
  "fetchFn_calls failed_once = [1700000000000]
   \<and> timers failed_once = [(1000, first_render)]
   \<and> fetchFn_calls (run_timers meals network_down 4 1700000000000 failed_once)
       = [1700000000000, 1700000001000, 1700000002000, 1700000003000, 1700000004000]
   \<and> timers (run_timers meals network_down 4 1700000000000 failed_once)
       = [(1000, first_render)]
   \<and> retryCount (run_timers meals network_down 4 1700000000000 failed_once) = 5"
  by (simp add: failed_once_def hook_defs eval_nat_numeral)

subsection \<open>Concurrent calls\<close>

text \<open>
  C3. The claim: of two calls without force, the second made while the fetch of the first
  is pending, only the first invokes the fetch. Below both calls go through the closure
  of the first render, as the initial load and the focus callback of one render do: the
  first leaves the hook loading, and the second invokes the fetch again.
\<close>

theorem two_calls_of_one_closure_fetch_twice:
  "isLoading older_started
   \<and> fetchFn_calls older_started = [1700000000000]
   \<and> fetchFn_calls (snd (fetchData meals first_render False 1700000000000 older_started))
       = [1700000000000, 1700000000000]
   \<and> fetchFn_calls (snd (onFocus meals first_render 1700000000000
        (snd (initialLoad meals first_render 1700000000000 init_world))))
       = [1700000000000, 1700000000000]"
  by (simp add: older_started_def hook_defs onFocus_def)

subsection \<open>Rate limiting\<close>

text \<open>
  C5, as the claim has it, fails twice over. A call without force made 20 ms after the
  entry of a call that failed invokes the fetch; and so does one made 500 ms after a
  fetch has resolved that took five seconds (its result, the number 0, is falsy, so the
  cache does not answer).
\<close>

theorem request_soon_after_completion_fetches_again:
  "fetchFn_calls failed_once = [1700000000000]
   \<and> fetchFn_calls (snd (fetchData meals (render failed_once) False 1700000000020 failed_once))
       = [1700000000000, 1700000000020]
   \<and> fetchFn_calls slow_success = [1700000000000]
   \<and> fetchFn_calls (snd (fetchData meals (render slow_success) False 1700000005500 slow_success))
       = [1700000000000, 1700000005500]"
  by (simp add: older_def older_started_def failed_once_def slow_success_def hook_defs)

text \<open>
  C5, amended. A call whose fetch resolves records in \<^verbatim>\<open>lastFetchRef\<close> the time at which
  the call was entered; a call without force entered less than 1000 ms after that time
  invokes no fetch and is not suspended. A call whose fetch rejects leaves
  \<^verbatim>\<open>lastFetchRef\<close> as it was.
\<close>

theorem rate_limit_counts_from_entry_of_last_success:
  assumes "now - p_now p < 1000"
  shows "lastFetchRef (fetchData_resolved opts p v t w) = p_now p
       \<and> fetchFn_calls (snd (fetchData opts cl False now (fetchData_resolved opts p v t w)))
           = fetchFn_calls w
       \<and> (\<forall>q. fst (fetchData opts cl False now (fetchData_resolved opts p v t w)) \<noteq> Awaiting q)
       \<and> lastFetchRef (snd (fetchData_rejected opts p err w)) = lastFetchRef w"
proof -
  let ?w = "fetchData_resolved opts p v t w"
  have last: "lastFetchRef ?w = p_now p" and calls: "fetchFn_calls ?w = fetchFn_calls w"
    by (simp_all add: fetchData_resolved_def Let_def)
  from assms last have "now - lastFetchRef ?w < 1000" by simp
  from rate_limited_call [OF this] last calls show ?thesis
    by (simp add: fetchData_rejected_def Let_def)
qed

text \<open>
  The initial load resolves after 300 ms with the number 0; a call 999 ms after the entry
  of the initial load gets past the cache and the loading guard and is held back by the
  rate limit.
\<close>

theorem rate_limit_counts_from_entry_of_last_success_witness:
  "lastFetchRef (fetchData_resolved meals older (JNum 0) 1700000000300 older_started)
       = 1700000000000
   \<and> fetchFn_calls (snd (fetchData meals first_render False 1700000000999
        (fetchData_resolved meals older (JNum 0) 1700000000300 older_started)))
       = [1700000000000]
   \<and> fst (fetchData meals first_render False 1700000000999
        (fetchData_resolved meals older (JNum 0) 1700000000300 older_started))
       = Resolved_undefined"
  using rate_limit_counts_from_entry_of_last_success
    [of 1700000000999 older meals "JNum 0" 1700000000300 older_started first_render network_down]
  by (simp add: older_def older_started_def hook_defs)

subsection \<open>Failure\<close>

text \<open>
  C6, as the claim has it, fails at the first failure: retries are enabled and the
  captured retry count 0 is below \<^verbatim>\<open>maxRetries\<close>, a retry is scheduled, and yet the
  call throws the error to its caller and the error cell holds the message.
\<close>

theorem first_failure_is_surfaced_at_once:
  "fst (initialLoad meals first_render 1700000000000 init_world) = Awaiting older
   \<and> retryOnError meals
   \<and> int (cl_retryCount (p_closure older)) < maxRetries meals
   \<and> fst (fetchData_rejected meals older network_down older_started) = network_down
   \<and> error (snd (fetchData_rejected meals older network_down older_started))
       = Some ''Network request failed''
   \<and> timers (snd (fetchData_rejected meals older network_down older_started))
       = [(1000, first_render)]"
  by (simp add: older_def older_started_def hook_defs)

text \<open>
  C6, amended. Every failure of the fetch is surfaced: the call throws the error to its
  caller and the error cell holds its message, whether a retry is scheduled or not. The
  hook is left not loading, and in any state a \<^verbatim>\<open>refresh()\<close> invokes the fetch.
\<close>

theorem every_failure_is_surfaced_and_refresh_stays_usable:
  "fst (fetchData_rejected opts p err w) = err
   \<and> error (snd (fetchData_rejected opts p err w))
       = Some (case err of ErrorObject m \<Rightarrow> m | OtherValue \<Rightarrow> ''Unknown error'')
   \<and> isLoading (snd (fetchData_rejected opts p err w)) = False
   \<and> fst (refresh opts cl now w') =
       Awaiting \<lparr>p_closure = cl, p_now = now, p_controller = length (controllers w')\<rparr>
   \<and> fetchFn_calls (snd (refresh opts cl now w')) = fetchFn_calls w' @ [now]"
  by (simp add: refresh_def forced_call_starts_fetch startFetch_calls)
     (simp add: fetchData_rejected_def Let_def)

text \<open>
  With \<^verbatim>\<open>maxRetries = 0\<close> the first failure is the last: nothing is scheduled, the error
  is thrown and shown, and a refresh from that state invokes the fetch.
\<close>

theorem every_failure_is_surfaced_and_refresh_stays_usable_witness:
  "fetchData_rejected (meals\<lparr>maxRetries := 0\<rparr>) older network_down older_started
     = (network_down,
        \<lparr>hook_data = JNull, isLoading = False, error = Some ''Network request failed'',
         retryCount = 0, lastFetchRef = 0, abortControllerRef = None, globalCache = [],
         controllers = [False], fetchFn_calls = [1700000000000], timers = []\<rparr>)
   \<and> fetchFn_calls (snd (refresh (meals\<lparr>maxRetries := 0\<rparr>) first_render 1700000060000
        (snd (fetchData_rejected (meals\<lparr>maxRetries := 0\<rparr>) older network_down older_started))))
       = [1700000000000, 1700000060000]"
  using every_failure_is_surfaced_and_refresh_stays_usable
    [of "meals\<lparr>maxRetries := 0\<rparr>" older network_down older_started first_render
        1700000060000
        "snd (fetchData_rejected (meals\<lparr>maxRetries := 0\<rparr>) older network_down older_started)"]
  by (simp add: older_def older_started_def hook_defs)

subsection \<open>Invalidation\<close>

text \<open>
  C7, as the claim has it, fails on the error and the retry count: after a failed load
  the error cell holds the message and the retry count is 1, and both are the same after
  \<^verbatim>\<open>invalidate()\<close>.
\<close>

theorem invalidate_leaves_error_and_retry_count:
  "error failed_once = Some ''Network request failed''
   \<and> retryCount failed_once = 1
   \<and> error (invalidate meals failed_once) = Some ''Network request failed''
   \<and> retryCount (invalidate meals failed_once) = 1"
  by (simp add: failed_once_def hook_defs invalidate_def)

text \<open>
  C7, amended. \<^verbatim>\<open>invalidate()\<close> removes the key from the cache store, so that a \<^verbatim>\<open>get\<close>
  that follows returns \<^verbatim>\<open>null\<close>, and sets the data cell to \<^verbatim>\<open>null\<close>, without invoking the
  fetch or scheduling anything; the error, the retry count and the loading flag are left
  as they were.
\<close>

theorem invalidate_clears_cache_key_and_data:
  "key opts \<notin> set (Map_keys (globalCache (invalidate opts w)))
   \<and> fst (DataCache_get (globalCache (invalidate opts w)) (key opts) now) = None
   \<and> hook_data (invalidate opts w) = JNull
   \<and> fetchFn_calls (invalidate opts w) = fetchFn_calls w
   \<and> timers (invalidate opts w) = timers w
   \<and> error (invalidate opts w) = error w
   \<and> retryCount (invalidate opts w) = retryCount w
   \<and> isLoading (invalidate opts w) = isLoading w"
proof -
  have gone: "key opts \<notin> set (Map_keys (globalCache (invalidate opts w)))"
    by (simp add: invalidate_def Let_def invalidate_drops_key)
  then have "Map_get (globalCache (invalidate opts w)) (key opts) = None"
    by (simp add: Map_get_None_iff)
  then have "fst (DataCache_get (globalCache (invalidate opts w)) (key opts) now) = None"
    by (simp add: DataCache_get_def)
  with gone show ?thesis
    by (simp add: invalidate_def Let_def)
qed

text \<open>After the refresh of the run above has brought the object 2 into the cache.\<close>

theorem invalidate_clears_cache_key_and_data_witness:
  "globalCache newer_done =
       [(''meals'', \<lparr>data = JObj 2, timestamp = 1700000000200, expiresAt = 1700000300200\<rparr>)]
   \<and> ''meals'' \<notin> set (Map_keys (globalCache (invalidate meals newer_done)))
   \<and> fst (DataCache_get (globalCache (invalidate meals newer_done)) ''meals'' 1700000000201)
       = None
   \<and> hook_data (invalidate meals newer_done) = JNull
   \<and> fetchFn_calls (invalidate meals newer_done) = [1700000000000, 1700000000100]"
  using invalidate_clears_cache_key_and_data [of meals newer_done 1700000000201]
  by (simp add: newer_def older_started_def newer_started_def newer_done_def hook_defs)

end
